theory Spec2Isabelle
  imports Main "HOL-Library.Word"
begin

section \<open>Data model\<close>

text \<open>
  The request handlers of the DHT node (\<^verbatim>\<open>handlers.go\<close>). Go byte slices are lists of
  8-bit words; a nil slice and an empty slice are both the empty list (the handlers only
  measure, compare and iterate over slices, and \<^verbatim>\<open>bytes.Equal\<close>, \<^verbatim>\<open>len\<close> and
  \<^verbatim>\<open>range\<close> do not tell the two apart). A peer identifier is a Go string holding
  arbitrary bytes (\<^verbatim>\<open>peer.ID(pmes.GetKey())\<close> is a plain conversion), so it is a byte
  list as well.
\<close>

type_synonym bytes = "8 word list"
type_synonym peer_id = bytes
type_synonym multiaddr = bytes
type_synonym dskey = string

text \<open>
  Go's \<^verbatim>\<open>error\<close> values: the datastore's sentinel \<^verbatim>\<open>ds.ErrNotFound\<close> (the only
  error the handlers compare against), the errors the handlers create themselves with
  \<^verbatim>\<open>errors.New\<close>, and whatever else a collaborator (datastore, validator, codec, content
  identifier parser) hands back.
\<close>

datatype error = ErrNotFound | ErrorsNew string | CollaboratorError string

datatype message_type =
  PUT_VALUE | GET_VALUE | ADD_PROVIDER | GET_PROVIDERS | FIND_NODE | PING
  | UnknownType int

datatype connectedness = NotConnected | Connected | CanConnect | CannotConnect

text \<open>\<^verbatim>\<open>recpb.Record\<close>: key, value and the receipt time as an RFC 3339 string.\<close>

record dht_record =
  rec_key :: bytes
  rec_value :: bytes
  timeReceived :: string

text \<open>
  \<^verbatim>\<open>pb.Message\<close>. The record is a pointer that may be nil. The wire peer descriptor
  \<^verbatim>\<open>pb.Message_Peer\<close> is declared in package \<^verbatim>\<open>pb\<close>, outside the handlers; it is
  the type parameter \<open>'w\<close>.
\<close>

record 'w message =
  msg_type :: message_type
  msg_key :: bytes
  msg_record :: "dht_record option"
  closerPeers :: "'w list"
  providerPeers :: "'w list"
  clusterLevel :: int

text \<open>\<^verbatim>\<open>peer.AddrInfo\<close>: a peer identifier with its known addresses.\<close>

record addr_info =
  ai_ID :: peer_id
  ai_Addrs :: "multiaddr list"

text \<open>
  A content identifier, as the canonical byte string that \<^verbatim>\<open>c.Bytes()\<close> returns.
\<close>

datatype cid = Cid (cid_Bytes: bytes)

text \<open>
  The calls a handler makes on the datastore, on the striped put locks, on the routing
  table, and the mutating calls on the address book and the provider index, in the order
  they happen. \<^verbatim>\<open>AddAddrs\<close> is always called with the constant
  \<^verbatim>\<open>peerstore.ProviderAddrTTL\<close>, which is left out.
\<close>

datatype event =
  DsGet dskey
  | DsPut dskey bytes
  | DsDelete dskey
  | DsHas dskey
  | Lock "8 word"
  | Unlock "8 word"
  | RoutingQuery bytes peer_id nat
  | AddAddrs peer_id "multiaddr list"
  | AddProvider cid peer_id

text \<open>
  The node (\<^verbatim>\<open>IpfsDHT\<close>) as the handlers see it: its own identifier and its
  collaborators, each an arbitrary function. \<open>'s\<close> is the state of the datastore;
  \<^verbatim>\<open>Get\<close> and \<^verbatim>\<open>Has\<close> read it, \<^verbatim>\<open>Put\<close> and \<^verbatim>\<open>Delete\<close> return the new
  state together with Go's error result. A Go result pair \<^verbatim>\<open>(value, err)\<close> whose value
  the handlers use only when \<^verbatim>\<open>err\<close> is nil is a sum; \<^verbatim>\<open>Has\<close> and
  \<^verbatim>\<open>ParseRFC3339\<close>, whose value is used beside a non-nil error, return the pair.
  \<^verbatim>\<open>MaxRecordAge\<close>, \<^verbatim>\<open>KValue\<close> and \<^verbatim>\<open>betterPeersToQuery\<close> are declared in other
  files of the package and are parameters here. Instants and durations are integers
  (nanoseconds).
\<close>

record ('s, 'w) dht =
  self :: peer_id
  datastore_Get :: "'s \<Rightarrow> dskey \<Rightarrow> error + bytes"
  datastore_Put :: "'s \<Rightarrow> dskey \<Rightarrow> bytes \<Rightarrow> 's \<times> error option"
  datastore_Delete :: "'s \<Rightarrow> dskey \<Rightarrow> 's \<times> error option"
  datastore_Has :: "'s \<Rightarrow> dskey \<Rightarrow> bool \<times> error option"
  Validator_Validate :: "bytes \<Rightarrow> bytes \<Rightarrow> error option"
  Validator_Select :: "bytes \<Rightarrow> bytes list \<Rightarrow> error + int"
  proto_Unmarshal :: "bytes \<Rightarrow> error + dht_record"
  proto_Marshal :: "dht_record \<Rightarrow> error + bytes"
  ParseRFC3339 :: "string \<Rightarrow> int \<times> error option"
  FormatRFC3339 :: "int \<Rightarrow> string"
  time_Now :: int
  time_Since :: "int \<Rightarrow> int"
  MaxRecordAge :: int
  KValue :: nat
  cid_Cast :: "bytes \<Rightarrow> error + cid"
  betterPeersToQuery :: "'w message \<Rightarrow> peer_id \<Rightarrow> nat \<Rightarrow> peer_id list"
  peerstore_Addrs :: "peer_id \<Rightarrow> multiaddr list"
  network_Connectedness :: "peer_id \<Rightarrow> connectedness"
  providers_GetProviders :: "cid \<Rightarrow> peer_id list"
  peerInfoToPBPeer :: "addr_info \<Rightarrow> 'w"
  PBPeerToPeerInfo :: "'w \<Rightarrow> addr_info"
  base32_EncodeToString :: "bytes \<Rightarrow> string"
  ds_NewKey :: "string \<Rightarrow> dskey"

text \<open>
  What a handler returns: Go's result pair \<^verbatim>\<open>(*pb.Message, error)\<close>, each half nil
  or not on its own, with the datastore state it leaves and the calls it made.
\<close>

record ('s, 'w) outcome =
  resp :: "'w message option"
  err :: "error option"
  store :: 's
  trace :: "event list"

section \<open>Collaborator glue\<close>

definition CloserPeerCount :: "('s, 'w) dht \<Rightarrow> nat" where
  "CloserPeerCount dht = KValue dht"

definition convertToDsKey :: "('s, 'w) dht \<Rightarrow> bytes \<Rightarrow> dskey" where
  "convertToDsKey dht s = ds_NewKey dht (base32_EncodeToString dht s)"

text \<open>
  Modelled from the spec: \<^verbatim>\<open>pb.NewMessage\<close> is in package \<^verbatim>\<open>pb\<close>, not among the
  sources here. The message codec constructs a response envelope of a given type, key and
  cluster level; it carries no record and no peers.
\<close>

definition NewMessage :: "message_type \<Rightarrow> bytes \<Rightarrow> int \<Rightarrow> 'w message" where
  "NewMessage typ key level =
     \<lparr>msg_type = typ, msg_key = key, msg_record = None, closerPeers = [],
      providerPeers = [], clusterLevel = level\<rparr>"

text \<open>
  Modelled from the spec: \<^verbatim>\<open>pb.PeerInfosToPBPeers\<close> and \<^verbatim>\<open>pb.PBPeersToPeerInfos\<close>
  are in package \<^verbatim>\<open>pb\<close>, not among the sources here. The message codec converts
  between peer records and wire peer descriptors in both directions, one descriptor for
  each record and in the same order; what one descriptor holds is the node's parameter.
\<close>

definition PeerInfosToPBPeers :: "('s, 'w) dht \<Rightarrow> addr_info list \<Rightarrow> 'w list" where
  "PeerInfosToPBPeers dht peers = map (peerInfoToPBPeer dht) peers"

definition PBPeersToPeerInfos :: "('s, 'w) dht \<Rightarrow> 'w list \<Rightarrow> addr_info list" where
  "PBPeersToPeerInfos dht pbps = map (PBPeerToPeerInfo dht) pbps"

text \<open>
  \<^verbatim>\<open>pstore.PeerInfos\<close> of the peer store library: the address book's record for each
  identifier, in order.
\<close>

definition PeerInfos :: "('s, 'w) dht \<Rightarrow> peer_id list \<Rightarrow> addr_info list" where
  "PeerInfos dht peers =
     map (\<lambda>p. \<lparr>ai_ID = p, ai_Addrs = peerstore_Addrs dht p\<rparr>) peers"

section \<open>The value store handlers\<close>

definition checkLocalDatastore ::
  "('s, 'w) dht \<Rightarrow> 's \<Rightarrow> bytes \<Rightarrow> (dht_record option \<times> error option) \<times> 's \<times> event list" where
  "checkLocalDatastore dht s k =
     (let dskey = convertToDsKey dht k in
      case datastore_Get dht s dskey of
        Inl e \<Rightarrow>
          if e = ErrNotFound then ((None, None), s, [DsGet dskey])
          else ((None, Some e), s, [DsGet dskey])
      | Inr buf \<Rightarrow>
          (case proto_Unmarshal dht buf of
             Inl e \<Rightarrow> ((None, Some e), s, [DsGet dskey])
           | Inr rec \<Rightarrow>
               (let (recvtime, perr) = ParseRFC3339 dht (timeReceived rec);
                    recordIsBad = (perr \<noteq> None \<or> time_Since dht recvtime > MaxRecordAge dht)
                in if recordIsBad then
                     (let (s', derr) = datastore_Delete dht s dskey
                      in ((None, None), s', [DsGet dskey, DsDelete dskey]))
                   else ((Some rec, None), s, [DsGet dskey]))))"

definition handleGetValue ::
  "('s, 'w) dht \<Rightarrow> 's \<Rightarrow> peer_id \<Rightarrow> 'w message \<Rightarrow> ('s, 'w) outcome" where
  "handleGetValue dht s p pmes =
     (let resp0 = NewMessage (msg_type pmes) (msg_key pmes) (clusterLevel pmes);
          k = msg_key pmes
      in if length k = 0 then
           \<lparr>resp = None, err = Some (ErrorsNew ''handleGetValue but no key was provided''),
            store = s, trace = []\<rparr>
         else
           (case checkLocalDatastore dht s k of
              ((rec, Some e), s', evs) \<Rightarrow> \<lparr>resp = None, err = Some e, store = s', trace = evs\<rparr>
            | ((rec, None), s', evs) \<Rightarrow>
                (let resp1 = resp0\<lparr>msg_record := rec\<rparr>;
                     closer = betterPeersToQuery dht pmes p (CloserPeerCount dht);
                     resp2 = (if length closer > 0
                              then resp1\<lparr>closerPeers :=
                                     PeerInfosToPBPeers dht (PeerInfos dht closer)\<rparr>
                              else resp1)
                 in \<lparr>resp = Some resp2, err = None, store = s',
                     trace = evs @ [RoutingQuery (msg_key pmes) p (CloserPeerCount dht)]\<rparr>)))"

text \<open>Cleans the record (to avoid storing arbitrary data).\<close>

definition cleanRecord :: "dht_record \<Rightarrow> dht_record" where
  "cleanRecord rec = rec\<lparr>timeReceived := ''''\<rparr>"

text \<open>
  Returns no record and no error when nothing is found or when the value found does not
  unmarshal or validate; an error only for a datastore error. It makes one call on the
  datastore, a \<^verbatim>\<open>Get\<close>, which its caller enters in the trace.
\<close>

definition getRecordFromDatastore ::
  "('s, 'w) dht \<Rightarrow> 's \<Rightarrow> dskey \<Rightarrow> dht_record option \<times> error option" where
  "getRecordFromDatastore dht s dskey =
     (case datastore_Get dht s dskey of
        Inl e \<Rightarrow> if e = ErrNotFound then (None, None) else (None, Some e)
      | Inr buf \<Rightarrow>
          (case proto_Unmarshal dht buf of
             Inl e \<Rightarrow> (None, None)
           | Inr rec \<Rightarrow>
               (case Validator_Validate dht (rec_key rec) (rec_value rec) of
                  Some e \<Rightarrow> (None, None)
                | None \<Rightarrow> (Some rec, None))))"

text \<open>The stripe of the put lock: the key's last byte, or 0 for an empty key.\<close>

definition indexForLock :: "bytes \<Rightarrow> 8 word" where
  "indexForLock k = (if length k = 0 then 0 else k ! (length k - 1))"

text \<open>
  Store a value in this peer's local storage. \<^verbatim>\<open>rec\<close> is the pointer held by
  \<^verbatim>\<open>pmes\<close>, so the message returned at the end carries the record as cleaned and
  stamped. The deferred \<^verbatim>\<open>Unlock\<close> runs on every return after the \<^verbatim>\<open>Lock\<close>.
\<close>

definition handlePutValue ::
  "('s, 'w) dht \<Rightarrow> 's \<Rightarrow> peer_id \<Rightarrow> 'w message \<Rightarrow> ('s, 'w) outcome" where
  "handlePutValue dht s p pmes =
     (case msg_record pmes of
        None \<Rightarrow> \<lparr>resp = None, err = Some (ErrorsNew ''nil record''), store = s, trace = []\<rparr>
      | Some rec0 \<Rightarrow>
          if msg_key pmes \<noteq> rec_key rec0 then
            \<lparr>resp = None, err = Some (ErrorsNew ''put key doesn't match record key''),
             store = s, trace = []\<rparr>
          else
            (let rec = cleanRecord rec0 in
             case Validator_Validate dht (rec_key rec) (rec_value rec) of
               Some e \<Rightarrow> \<lparr>resp = None, err = Some e, store = s, trace = []\<rparr>
             | None \<Rightarrow>
                 (let dskey = convertToDsKey dht (rec_key rec);
                      lk = indexForLock (rec_key rec)
                  in case getRecordFromDatastore dht s dskey of
                       (existing, Some e) \<Rightarrow>
                         \<lparr>resp = None, err = Some e, store = s,
                          trace = [Lock lk, DsGet dskey, Unlock lk]\<rparr>
                     | (existing, None) \<Rightarrow>
                         (case (case existing of
                                  None \<Rightarrow> None
                                | Some ex \<Rightarrow>
                                    (case Validator_Select dht (rec_key rec)
                                            [rec_value rec, rec_value ex] of
                                       Inl e \<Rightarrow> Some e
                                     | Inr i \<Rightarrow>
                                         if i \<noteq> 0 then Some (ErrorsNew ''old record'')
                                         else None)) of
                            Some e \<Rightarrow>
                              \<lparr>resp = None, err = Some e, store = s,
                               trace = [Lock lk, DsGet dskey, Unlock lk]\<rparr>
                          | None \<Rightarrow>
                              (let rec' = rec\<lparr>timeReceived :=
                                              FormatRFC3339 dht (time_Now dht)\<rparr>
                               in case proto_Marshal dht rec' of
                                    Inl e \<Rightarrow>
                                      \<lparr>resp = None, err = Some e, store = s,
                                       trace = [Lock lk, DsGet dskey, Unlock lk]\<rparr>
                                  | Inr data \<Rightarrow>
                                      (let (s', perr) = datastore_Put dht s dskey data
                                       in \<lparr>resp = Some (pmes\<lparr>msg_record := Some rec'\<rparr>),
                                           err = perr, store = s',
                                           trace = [Lock lk, DsGet dskey, DsPut dskey data,
                                                    Unlock lk]\<rparr>))))))"

section \<open>The ping and peer discovery handlers\<close>

definition handlePing ::
  "('s, 'w) dht \<Rightarrow> 's \<Rightarrow> peer_id \<Rightarrow> 'w message \<Rightarrow> ('s, 'w) outcome" where
  "handlePing dht s p pmes = \<lparr>resp = Some pmes, err = None, store = s, trace = []\<rparr>"

text \<open>
  The answer set \<^verbatim>\<open>closest\<close> of \<^verbatim>\<open>handleFindPeer\<close> as it stands before the
  address book is consulted, with the routing table queries made to compute it.
\<close>

definition findPeerClosest ::
  "('s, 'w) dht \<Rightarrow> peer_id \<Rightarrow> 'w message \<Rightarrow> peer_id list \<times> event list" where
  "findPeerClosest dht p pmes =
     (let targetPid = msg_key pmes
      in if targetPid = self dht then ([self dht], [])
         else
           (let closest0 = betterPeersToQuery dht pmes p (CloserPeerCount dht);
                closest1 =
                  (if targetPid \<noteq> p then
                     (case network_Connectedness dht targetPid of
                        Connected \<Rightarrow> closest0 @ [targetPid]
                      | CanConnect \<Rightarrow> closest0 @ [targetPid]
                      | _ \<Rightarrow> closest0)
                   else closest0)
            in (closest1, [RoutingQuery (msg_key pmes) p (CloserPeerCount dht)])))"

definition handleFindPeer ::
  "('s, 'w) dht \<Rightarrow> 's \<Rightarrow> peer_id \<Rightarrow> 'w message \<Rightarrow> ('s, 'w) outcome" where
  "handleFindPeer dht s p pmes =
     (let resp0 = NewMessage (msg_type pmes) [] (clusterLevel pmes);
          (closest, evs) = findPeerClosest dht p pmes
      in if closest = [] then \<lparr>resp = Some resp0, err = None, store = s, trace = evs\<rparr>
         else
           (let closestinfos = PeerInfos dht closest;
                withAddresses = filter (\<lambda>pinfo. length (ai_Addrs pinfo) > 0) closestinfos
            in \<lparr>resp = Some (resp0\<lparr>closerPeers := PeerInfosToPBPeers dht withAddresses\<rparr>),
                err = None, store = s, trace = evs\<rparr>))"

section \<open>The provider handlers\<close>

definition handleGetProviders ::
  "('s, 'w) dht \<Rightarrow> 's \<Rightarrow> peer_id \<Rightarrow> 'w message \<Rightarrow> ('s, 'w) outcome" where
  "handleGetProviders dht s p pmes =
     (let resp0 = NewMessage (msg_type pmes) (msg_key pmes) (clusterLevel pmes)
      in case cid_Cast dht (msg_key pmes) of
           Inl e \<Rightarrow> \<lparr>resp = None, err = Some e, store = s, trace = []\<rparr>
         | Inr c \<Rightarrow>
             (let dskey = convertToDsKey dht (cid_Bytes c);
                  (has0, herr) = datastore_Has dht s dskey;
                  has = (if herr \<noteq> None \<and> herr \<noteq> Some ErrNotFound then False else has0);
                  providers0 = providers_GetProviders dht c;
                  providers = (if has then providers0 @ [self dht] else providers0);
                  resp1 = (if length providers > 0
                           then resp0\<lparr>providerPeers :=
                                  PeerInfosToPBPeers dht (PeerInfos dht providers)\<rparr>
                           else resp0);
                  closer = betterPeersToQuery dht pmes p (CloserPeerCount dht);
                  resp2 = (if closer \<noteq> []
                           then resp1\<lparr>closerPeers :=
                                  PeerInfosToPBPeers dht (PeerInfos dht closer)\<rparr>
                           else resp1)
              in \<lparr>resp = Some resp2, err = None, store = s,
                  trace = [DsHas dskey,
                           RoutingQuery (msg_key pmes) p (CloserPeerCount dht)]\<rparr>))"

text \<open>
  The loop of \<^verbatim>\<open>handleAddProvider\<close> over the peer records of the request: the calls
  it makes on the address book and on the provider index.
\<close>

fun addProviderLoop :: "('s, 'w) dht \<Rightarrow> peer_id \<Rightarrow> cid \<Rightarrow> addr_info list \<Rightarrow> event list" where
  "addProviderLoop dht p c [] = []"
| "addProviderLoop dht p c (pinfo # pinfos) =
     (if ai_ID pinfo \<noteq> p then addProviderLoop dht p c pinfos
      else if length (ai_Addrs pinfo) < 1 then addProviderLoop dht p c pinfos
      else (if ai_ID pinfo \<noteq> self dht then [AddAddrs (ai_ID pinfo) (ai_Addrs pinfo)]
            else [])
           @ [AddProvider c p] @ addProviderLoop dht p c pinfos)"

definition handleAddProvider ::
  "('s, 'w) dht \<Rightarrow> 's \<Rightarrow> peer_id \<Rightarrow> 'w message \<Rightarrow> ('s, 'w) outcome" where
  "handleAddProvider dht s p pmes =
     (case cid_Cast dht (msg_key pmes) of
        Inl e \<Rightarrow> \<lparr>resp = None, err = Some e, store = s, trace = []\<rparr>
      | Inr c \<Rightarrow>
          (let pinfos = PBPeersToPeerInfos dht (providerPeers pmes)
           in \<lparr>resp = None, err = None, store = s,
               trace = addProviderLoop dht p c pinfos\<rparr>))"

section \<open>Dispatch\<close>

fun handlerForMsgType ::
  "message_type \<Rightarrow>
   (('s, 'w) dht \<Rightarrow> 's \<Rightarrow> peer_id \<Rightarrow> 'w message \<Rightarrow> ('s, 'w) outcome) option" where
  "handlerForMsgType GET_VALUE = Some handleGetValue"
| "handlerForMsgType PUT_VALUE = Some handlePutValue"
| "handlerForMsgType FIND_NODE = Some handleFindPeer"
| "handlerForMsgType ADD_PROVIDER = Some handleAddProvider"
| "handlerForMsgType GET_PROVIDERS = Some handleGetProviders"
| "handlerForMsgType PING = Some handlePing"
| "handlerForMsgType (UnknownType t) = None"

section \<open>A small node for concrete evaluation\<close>

text \<open>
  An in-memory datastore, a validator for values made of a sequence number and a
  non-empty payload (the higher sequence number is preferred), a length-prefixed record
  encoding, a clock that counts days, and an address book that knows the addresses of
  peers 2 and 7 only. The node itself is peer 1.
\<close>

type_synonym memstore = "dskey \<rightharpoonup> bytes"

definition memGet :: "memstore \<Rightarrow> dskey \<Rightarrow> error + bytes" where
  "memGet s k = (case s k of None \<Rightarrow> Inl ErrNotFound | Some b \<Rightarrow> Inr b)"

definition memPut :: "memstore \<Rightarrow> dskey \<Rightarrow> bytes \<Rightarrow> memstore \<times> error option" where
  "memPut s k v = (s(k \<mapsto> v), None)"

definition memDelete :: "memstore \<Rightarrow> dskey \<Rightarrow> memstore \<times> error option" where
  "memDelete s k = (s(k := None), None)"

definition memHas :: "memstore \<Rightarrow> dskey \<Rightarrow> bool \<times> error option" where
  "memHas s k = (s k \<noteq> None, None)"

definition egValidate :: "bytes \<Rightarrow> bytes \<Rightarrow> error option" where
  "egValidate k v = (if length v < 2 then Some (CollaboratorError ''no payload'') else None)"

definition seqOf :: "bytes \<Rightarrow> nat" where
  "seqOf v = (case v of [] \<Rightarrow> 0 | x # _ \<Rightarrow> unat x)"

definition egSelect :: "bytes \<Rightarrow> bytes list \<Rightarrow> error + int" where
  "egSelect k vs =
     (case vs of
        [a, b] \<Rightarrow> Inr (if seqOf a < seqOf b then 1 else 0)
      | _ \<Rightarrow> Inl (CollaboratorError ''expected two values''))"

definition egMarshal :: "dht_record \<Rightarrow> error + bytes" where
  "egMarshal r =
     Inr (word_of_nat (length (rec_key r)) # rec_key r
          @ word_of_nat (length (timeReceived r)) # map of_char (timeReceived r)
          @ rec_value r)"

definition egUnmarshal :: "bytes \<Rightarrow> error + dht_record" where
  "egUnmarshal buf =
     (case buf of
        [] \<Rightarrow> Inl (CollaboratorError ''unexpected EOF'')
      | n # rest \<Rightarrow>
          if length rest < unat n then Inl (CollaboratorError ''unexpected EOF'')
          else
            (case drop (unat n) rest of
               [] \<Rightarrow> Inl (CollaboratorError ''unexpected EOF'')
             | m # rest' \<Rightarrow>
                 if length rest' < unat m then Inl (CollaboratorError ''unexpected EOF'')
                 else Inr \<lparr>rec_key = take (unat n) rest,
                           rec_value = drop (unat m) rest',
                           timeReceived =
                             map (\<lambda>w. char_of (unat w)) (take (unat m) rest')\<rparr>))"

definition egParse :: "string \<Rightarrow> int \<times> error option" where
  "egParse t =
     (if t = ''d1'' then (1, None)
      else if t = ''d8'' then (8, None)
      else if t = ''d9'' then (9, None)
      else (0, Some (CollaboratorError ''cannot parse time'')))"

definition egFormat :: "int \<Rightarrow> string" where
  "egFormat t = (if t = 1 then ''d1'' else if t = 8 then ''d8'' else ''d9'')"

definition egNode :: "(memstore, addr_info) dht" where
  "egNode =
     \<lparr>self = [1],
      datastore_Get = memGet, datastore_Put = memPut,
      datastore_Delete = memDelete, datastore_Has = memHas,
      Validator_Validate = egValidate, Validator_Select = egSelect,
      proto_Unmarshal = egUnmarshal, proto_Marshal = egMarshal,
      ParseRFC3339 = egParse, FormatRFC3339 = egFormat,
      time_Now = 9, time_Since = (\<lambda>t. 9 - t), MaxRecordAge = 3, KValue = 20,
      cid_Cast = (\<lambda>b. if b = [] then Inl (CollaboratorError ''invalid cid'')
                       else Inr (Cid b)),
      betterPeersToQuery = (\<lambda>m p n. take n (filter (\<lambda>q. q \<noteq> p) [[2], [3]])),
      peerstore_Addrs = (\<lambda>p. if p = [2] then [[4, 2]] else if p = [7] then [[4, 7]]
                              else []),
      network_Connectedness = (\<lambda>p. if p = [7] then Connected else NotConnected),
      providers_GetProviders = (\<lambda>c. if c = Cid [5] then [[2]] else []),
      peerInfoToPBPeer = (\<lambda>a. a), PBPeerToPeerInfo = (\<lambda>a. a),
      base32_EncodeToString = map (\<lambda>w. char_of (unat w)),
      ds_NewKey = (\<lambda>s. CHR ''/'' # s)\<rparr>"

text \<open>The same node with a datastore whose \<^verbatim>\<open>Put\<close> always fails.\<close>

definition egNodeFullDisk :: "(memstore, addr_info) dht" where
  "egNodeFullDisk =
     egNode\<lparr>datastore_Put := (\<lambda>s k v. (s, Some (CollaboratorError ''disk full'')))\<rparr>"

text \<open>A request of the given type and key, with no record and no peers.\<close>

definition request :: "message_type \<Rightarrow> bytes \<Rightarrow> addr_info message" where
  "request typ k =
     \<lparr>msg_type = typ, msg_key = k, msg_record = None, closerPeers = [],
      providerPeers = [], clusterLevel = 0\<rparr>"

text \<open>A \<^verbatim>\<open>PUT_VALUE\<close> request for message key \<open>k\<close> carrying the given record.\<close>

definition putRequest :: "bytes \<Rightarrow> dht_record \<Rightarrow> addr_info message" where
  "putRequest k rec = (request PUT_VALUE k)\<lparr>msg_record := Some rec\<rparr>"

section \<open>Properties of the handlers\<close>

lemmas eg_defs =
  egNode_def egNodeFullDisk_def memGet_def memPut_def memDelete_def memHas_def
  egValidate_def seqOf_def egSelect_def egMarshal_def egUnmarshal_def egParse_def
  egFormat_def request_def putRequest_def convertToDsKey_def CloserPeerCount_def
  char_of_def bit_Suc_0_iff Let_def

subsection \<open>PUT_VALUE: malformed requests\<close>

text \<open>
  Claim C2. For every PUT_VALUE request, if the message carries no record, or the record's
  key is not byte-for-byte equal to the message's key, then \<^verbatim>\<open>handlePutValue\<close> returns a
  failure (no response, the error \<^verbatim>\<open>nil record\<close> or
  \<^verbatim>\<open>put key doesn't match record key\<close>) and performs no store mutation: the datastore
  state is the one it started from, whatever the datastore is, and the handler made no
  call at all on it, so no put and no delete.
\<close>

theorem handlePutValue_malformed_no_mutation:
  assumes "case msg_record pmes of None \<Rightarrow> True | Some rec \<Rightarrow> rec_key rec \<noteq> msg_key pmes"
  shows "resp (handlePutValue dht s p pmes) = None
       \<and> err (handlePutValue dht s p pmes) =
           Some (ErrorsNew (if msg_record pmes = None then ''nil record''
                            else ''put key doesn't match record key''))
       \<and> store (handlePutValue dht s p pmes) = s
       \<and> trace (handlePutValue dht s p pmes) = []"
  using assms by (auto simp: handlePutValue_def split: option.splits)

theorem handlePutValue_malformed_no_mutation_witness:
  "rec_key \<lparr>rec_key = [108], rec_value = [3, 1], timeReceived = ''''\<rparr> \<noteq> [107]
   \<and> resp (handlePutValue egNode Map.empty [2]
         (putRequest [107] \<lparr>rec_key = [108], rec_value = [3, 1], timeReceived = ''''\<rparr>)) = None
   \<and> err (handlePutValue egNode Map.empty [2]
         (putRequest [107] \<lparr>rec_key = [108], rec_value = [3, 1], timeReceived = ''''\<rparr>))
       = Some (ErrorsNew ''put key doesn't match record key'')
   \<and> store (handlePutValue egNode Map.empty [2]
         (putRequest [107] \<lparr>rec_key = [108], rec_value = [3, 1], timeReceived = ''''\<rparr>))
       = Map.empty
   \<and> trace (handlePutValue egNode Map.empty [2]
         (putRequest [107] \<lparr>rec_key = [108], rec_value = [3, 1], timeReceived = ''''\<rparr>)) = []
   \<and> resp (handlePutValue egNode Map.empty [2] (request PUT_VALUE [107])) = None
   \<and> err (handlePutValue egNode Map.empty [2] (request PUT_VALUE [107]))
       = Some (ErrorsNew ''nil record'')"
  using handlePutValue_malformed_no_mutation
          [of "putRequest [107] \<lparr>rec_key = [108], rec_value = [3, 1], timeReceived = ''''\<rparr>"
              egNode Map.empty "[2]"]
        handlePutValue_malformed_no_mutation [of "request PUT_VALUE [107]" egNode Map.empty "[2]"]
  by (simp add: request_def putRequest_def)

subsection \<open>PUT_VALUE: conflict resolution\<close>







subsection \<open>GET_VALUE: stale records\<close>

text \<open>
  Claim C3. For every GET_VALUE request on a non-empty key whose stored record
  deserializes but is stale (its receipt timestamp does not parse, which includes a
  missing one, or its age exceeds \<^verbatim>\<open>MaxRecordAge\<close>), the handler deletes the record from
  the store and returns a successful response carrying no record, not an error. The
  deletion is best effort: the statement holds for every datastore, so also for one whose
  \<^verbatim>\<open>Delete\<close> reports an error, which is not propagated.
\<close>

theorem handleGetValue_stale_record_evicted:
  assumes "msg_key pmes \<noteq> []"
    and "datastore_Get dht s (convertToDsKey dht (msg_key pmes)) = Inr buf"
    and "proto_Unmarshal dht buf = Inr rec"
    and "snd (ParseRFC3339 dht (timeReceived rec)) \<noteq> None
         \<or> time_Since dht (fst (ParseRFC3339 dht (timeReceived rec))) > MaxRecordAge dht"
  shows "map_option msg_record (resp (handleGetValue dht s p pmes)) = Some None
       \<and> err (handleGetValue dht s p pmes) = None
       \<and> store (handleGetValue dht s p pmes)
           = fst (datastore_Delete dht s (convertToDsKey dht (msg_key pmes)))
       \<and> trace (handleGetValue dht s p pmes)
           = [DsGet (convertToDsKey dht (msg_key pmes)),
              DsDelete (convertToDsKey dht (msg_key pmes)),
              RoutingQuery (msg_key pmes) p (CloserPeerCount dht)]"
  using assms
  by (auto simp: handleGetValue_def checkLocalDatastore_def Let_def
           split: prod.splits)

text \<open>
  A record received on day 1 is read on day 9, with a maximum age of 3 days. A record
  stored without a receipt time is read on a node whose datastore refuses to delete: the
  answer is the same successful response without a record.
\<close>

theorem handleGetValue_stale_record_evicted_witness:
  "datastore_Get egNode [''/k'' \<mapsto> [1, 107, 2, 100, 49, 3, 1]] (convertToDsKey egNode [107])
     = Inr [1, 107, 2, 100, 49, 3, 1]
   \<and> proto_Unmarshal egNode [1, 107, 2, 100, 49, 3, 1]
     = Inr \<lparr>rec_key = [107], rec_value = [3, 1], timeReceived = ''d1''\<rparr>
   \<and> ParseRFC3339 egNode ''d1'' = (1, None)
   \<and> time_Since egNode 1 > MaxRecordAge egNode
   \<and> map_option msg_record
        (resp (handleGetValue egNode [''/k'' \<mapsto> [1, 107, 2, 100, 49, 3, 1]] [2]
           (request GET_VALUE [107]))) = Some None
   \<and> err (handleGetValue egNode [''/k'' \<mapsto> [1, 107, 2, 100, 49, 3, 1]] [2]
           (request GET_VALUE [107])) = None
   \<and> store (handleGetValue egNode [''/k'' \<mapsto> [1, 107, 2, 100, 49, 3, 1]] [2]
           (request GET_VALUE [107])) ''/k'' = None
   \<and> trace (handleGetValue egNode [''/k'' \<mapsto> [1, 107, 2, 100, 49, 3, 1]] [2]
           (request GET_VALUE [107]))
     = [DsGet ''/k'', DsDelete ''/k'', RoutingQuery [107] [2] 20]
   \<and> map_option msg_record
        (resp (handleGetValue
                 (egNode\<lparr>datastore_Delete := (\<lambda>s k. (s, Some (CollaboratorError ''read only'')))\<rparr>)
                 [''/k'' \<mapsto> [1, 107, 0, 3, 1]] [2] (request GET_VALUE [107]))) = Some None
   \<and> err (handleGetValue
              (egNode\<lparr>datastore_Delete := (\<lambda>s k. (s, Some (CollaboratorError ''read only'')))\<rparr>)
              [''/k'' \<mapsto> [1, 107, 0, 3, 1]] [2] (request GET_VALUE [107])) = None"
  using handleGetValue_stale_record_evicted
          [where pmes = "request GET_VALUE [107]"
             and dht = "egNode\<lparr>datastore_Delete :=
                                (\<lambda>s k. (s, Some (CollaboratorError ''read only'')))\<rparr>"
             and s = "[''/k'' \<mapsto> [1, 107, 0, 3, 1]]"
             and buf = "[1, 107, 0, 3, 1]"
             and rec = "\<lparr>rec_key = [107], rec_value = [3, 1], timeReceived = []\<rparr>"
             and p = "[2]"]
        handleGetValue_stale_record_evicted
          [where pmes = "request GET_VALUE [107]" and dht = egNode
             and s = "[''/k'' \<mapsto> [1, 107, 2, 100, 49, 3, 1]]"
             and buf = "[1, 107, 2, 100, 49, 3, 1]"
             and rec = "\<lparr>rec_key = [107], rec_value = [3, 1], timeReceived = ''d1''\<rparr>"
             and p = "[2]"]
  by (simp add: eg_defs)

subsection \<open>The result pair of a handler\<close>

text \<open>
  A handler returns a message pointer and an error. Every return statement of
  \<^verbatim>\<open>handleGetValue\<close>, \<^verbatim>\<open>handleFindPeer\<close>, \<^verbatim>\<open>handleGetProviders\<close>,
  \<^verbatim>\<open>handleAddProvider\<close> and \<^verbatim>\<open>handlePing\<close> leaves at least one of the two nil, and so
  does every return of \<^verbatim>\<open>handlePutValue\<close> up to the last one.
\<close>

lemma handleGetValue_not_both:
  "resp (handleGetValue dht s p pmes) = None \<or> err (handleGetValue dht s p pmes) = None"
  by (auto simp: handleGetValue_def Let_def split: prod.splits option.splits)

lemma handleFindPeer_no_error:
  "err (handleFindPeer dht s p pmes) = None"
  by (auto simp: handleFindPeer_def Let_def split: prod.splits)

lemma handleGetProviders_not_both:
  "resp (handleGetProviders dht s p pmes) = None \<or> err (handleGetProviders dht s p pmes) = None"
  by (auto simp: handleGetProviders_def Let_def split: prod.splits sum.splits)

lemma handleAddProvider_no_response:
  "resp (handleAddProvider dht s p pmes) = None"
  by (auto simp: handleAddProvider_def Let_def split: sum.splits)

lemma handlePing_no_error:
  "err (handlePing dht s p pmes) = None"
  by (simp add: handlePing_def)

lemma handlePutValue_response_only_after_put:
  assumes "resp (handlePutValue dht s p pmes) \<noteq> None"
  shows "\<exists>rec data. msg_record pmes = Some rec
           \<and> DsPut (convertToDsKey dht (rec_key rec)) data
               \<in> set (trace (handlePutValue dht s p pmes))
           \<and> err (handlePutValue dht s p pmes)
               = snd (datastore_Put dht s (convertToDsKey dht (rec_key rec)) data)"
  using assms
  by (auto simp: handlePutValue_def cleanRecord_def Let_def
           split: option.splits sum.splits prod.splits if_splits)

text \<open>
  Claim C4. For every handler invocation the result is either a response message or a
  failure, never both; in particular a PUT_VALUE request whose final datastore
  persistence call fails yields a propagated failure and no response message.

  The last statement of \<^verbatim>\<open>handlePutValue\<close> is \<^verbatim>\<open>return pmes, err\<close> with the error of
  \<^verbatim>\<open>Put\<close>. On a node whose datastore refuses every \<^verbatim>\<open>Put\<close>, a well-formed, valid put
  for a key with no existing record returns the failure \<^emph>\<open>and\<close> the request message (its
  record stamped with the receipt time), where every other failing return of the handlers
  returns a nil message.
\<close>

theorem handlePutValue_put_failure_returns_message_and_error:
  "resp (handlePutValue egNodeFullDisk Map.empty [2]
           (putRequest [107] \<lparr>rec_key = [107], rec_value = [3, 1], timeReceived = ''''\<rparr>))
     = Some (putRequest [107] \<lparr>rec_key = [107], rec_value = [3, 1], timeReceived = ''d9''\<rparr>)
   \<and> err (handlePutValue egNodeFullDisk Map.empty [2]
           (putRequest [107] \<lparr>rec_key = [107], rec_value = [3, 1], timeReceived = ''''\<rparr>))
     = Some (CollaboratorError ''disk full'')"
  by (simp add: handlePutValue_def getRecordFromDatastore_def cleanRecord_def
        indexForLock_def eg_defs)

subsection \<open>PUT_VALUE: the receipt time\<close>




subsection \<open>PUT_VALUE: the empty key\<close>

text \<open>
  Claim C10. \<^verbatim>\<open>handleGetValue\<close> always fails on an empty key, before any other step.
  \<^verbatim>\<open>handlePutValue\<close> has no such check: a request whose message key and record key are
  both empty, and whose value the validator accepts for the empty key, passes validation
  and goes on under lock stripe 0; when no valid record exists yet under the empty key
  and the record encodes, it is handed to the datastore's \<^verbatim>\<open>Put\<close> under the store key of
  the empty key, and the handler's result is that of the \<^verbatim>\<open>Put\<close>.
\<close>

theorem handlePutValue_accepts_empty_key:
  "(msg_key pmes = []
    \<longrightarrow> handleGetValue dht s p pmes
        = \<lparr>resp = None, err = Some (ErrorsNew ''handleGetValue but no key was provided''),
           store = s, trace = []\<rparr>)
   \<and> (msg_key pmes = [] \<and> msg_record pmes = Some rec \<and> rec_key rec = []
        \<and> Validator_Validate dht [] (rec_value rec) = None
      \<longrightarrow> (\<exists>evs. trace (handlePutValue dht s p pmes) = Lock 0 # evs @ [Unlock 0])
          \<and> (getRecordFromDatastore dht s (convertToDsKey dht []) = (None, None)
               \<and> proto_Marshal dht (rec\<lparr>timeReceived := FormatRFC3339 dht (time_Now dht)\<rparr>)
                   = Inr data
             \<longrightarrow> handlePutValue dht s p pmes
                 = \<lparr>resp = Some (pmes\<lparr>msg_record :=
                             Some (rec\<lparr>timeReceived := FormatRFC3339 dht (time_Now dht)\<rparr>)\<rparr>),
                    err = snd (datastore_Put dht s (convertToDsKey dht []) data),
                    store = fst (datastore_Put dht s (convertToDsKey dht []) data),
                    trace = [Lock 0, DsGet (convertToDsKey dht []),
                             DsPut (convertToDsKey dht []) data, Unlock 0]\<rparr>))"
proof (intro conjI impI)
  assume "msg_key pmes = []"
  then show "handleGetValue dht s p pmes
        = \<lparr>resp = None, err = Some (ErrorsNew ''handleGetValue but no key was provided''),
           store = s, trace = []\<rparr>"
    by (simp add: handleGetValue_def)
next
  assume h: "msg_key pmes = [] \<and> msg_record pmes = Some rec \<and> rec_key rec = []
        \<and> Validator_Validate dht [] (rec_value rec) = None"
  then show "\<exists>evs. trace (handlePutValue dht s p pmes) = Lock 0 # evs @ [Unlock 0]"
    by (auto simp: handlePutValue_def cleanRecord_def indexForLock_def Let_def
             split: option.splits sum.splits prod.splits)
next
  assume h: "msg_key pmes = [] \<and> msg_record pmes = Some rec \<and> rec_key rec = []
        \<and> Validator_Validate dht [] (rec_value rec) = None"
    and g: "getRecordFromDatastore dht s (convertToDsKey dht []) = (None, None)
               \<and> proto_Marshal dht (rec\<lparr>timeReceived := FormatRFC3339 dht (time_Now dht)\<rparr>)
                   = Inr data"
  then show "handlePutValue dht s p pmes
                 = \<lparr>resp = Some (pmes\<lparr>msg_record :=
                             Some (rec\<lparr>timeReceived := FormatRFC3339 dht (time_Now dht)\<rparr>)\<rparr>),
                    err = snd (datastore_Put dht s (convertToDsKey dht []) data),
                    store = fst (datastore_Put dht s (convertToDsKey dht []) data),
                    trace = [Lock 0, DsGet (convertToDsKey dht []),
                             DsPut (convertToDsKey dht []) data, Unlock 0]\<rparr>"
    by (simp add: handlePutValue_def cleanRecord_def indexForLock_def Let_def
             split: prod.splits)
qed

text \<open>
  On the empty store, a get for the empty key fails, and a put of a valid value under the
  empty key is stored under the store key \<open>/\<close>.
\<close>

theorem handlePutValue_accepts_empty_key_witness:
  "handleGetValue egNode Map.empty [2] (request GET_VALUE [])
     = \<lparr>resp = None, err = Some (ErrorsNew ''handleGetValue but no key was provided''),
        store = Map.empty, trace = []\<rparr>
   \<and> Validator_Validate egNode [] [3, 1] = None
   \<and> getRecordFromDatastore egNode Map.empty (convertToDsKey egNode []) = (None, None)
   \<and> proto_Marshal egNode \<lparr>rec_key = [], rec_value = [3, 1], timeReceived = ''d9''\<rparr>
       = Inr [0, 2, 100, 57, 3, 1]
   \<and> handlePutValue egNode Map.empty [2]
        (putRequest [] \<lparr>rec_key = [], rec_value = [3, 1], timeReceived = ''''\<rparr>)
     = \<lparr>resp = Some (putRequest [] \<lparr>rec_key = [], rec_value = [3, 1], timeReceived = ''d9''\<rparr>),
        err = None, store = [''/'' \<mapsto> [0, 2, 100, 57, 3, 1]],
        trace = [Lock 0, DsGet ''/'', DsPut ''/'' [0, 2, 100, 57, 3, 1], Unlock 0]\<rparr>"
  using
    handlePutValue_accepts_empty_key
      [where pmes = "request GET_VALUE []" and dht = egNode and s = Map.empty and p = "[2]"]
    handlePutValue_accepts_empty_key
      [where pmes = "putRequest [] \<lparr>rec_key = [], rec_value = [3, 1], timeReceived = ''''\<rparr>"
         and rec = "\<lparr>rec_key = [], rec_value = [3, 1], timeReceived = ''''\<rparr>"
         and dht = egNode and s = Map.empty and p = "[2]"
         and data = "[0, 2, 100, 57, 3, 1]"]
  by (simp add: eg_defs getRecordFromDatastore_def)

subsection \<open>FIND_NODE: looking for the node itself\<close>

text \<open>
  Claim C5, as amended. For every FIND_NODE request whose key, read as a peer identifier,
  equals this node's own identifier, the answer set is exactly this node, whatever the
  routing table holds, and the routing table is not consulted (the handler makes no call
  that enters the trace, and its outcome is the same under every routing table). The
  response's closer-peer list is the single wire descriptor of this node when the address
  book holds at least one address for this node, and is empty otherwise, since the handler
  drops every peer record without addresses before it builds the response.
\<close>

theorem handleFindPeer_self_lookup:
  assumes "msg_key pmes = self dht"
  shows "findPeerClosest dht p pmes = ([self dht], [])
       \<and> trace (handleFindPeer dht s p pmes) = []
       \<and> err (handleFindPeer dht s p pmes) = None
       \<and> map_option closerPeers (resp (handleFindPeer dht s p pmes))
           = Some (if peerstore_Addrs dht (self dht) = [] then []
                   else [peerInfoToPBPeer dht
                           \<lparr>ai_ID = self dht, ai_Addrs = peerstore_Addrs dht (self dht)\<rparr>])
       \<and> handleFindPeer (dht\<lparr>betterPeersToQuery := rt\<rparr>) s p pmes
           = handleFindPeer dht s p pmes"
  using assms
  by (simp add: findPeerClosest_def handleFindPeer_def PeerInfos_def PeerInfosToPBPeers_def
        CloserPeerCount_def)

text \<open>
  A node that is peer 2, whose addresses the address book knows, answers a lookup of
  peer 2 with its own record, under its routing table and under another one.
\<close>

theorem handleFindPeer_self_lookup_witness:
  "msg_key (request FIND_NODE [2]) = self (egNode\<lparr>self := [2]\<rparr>)
   \<and> findPeerClosest (egNode\<lparr>self := [2]\<rparr>) [7] (request FIND_NODE [2]) = ([[2]], [])
   \<and> trace (handleFindPeer (egNode\<lparr>self := [2]\<rparr>) Map.empty [7] (request FIND_NODE [2])) = []
   \<and> map_option closerPeers
        (resp (handleFindPeer (egNode\<lparr>self := [2]\<rparr>) Map.empty [7] (request FIND_NODE [2])))
     = Some [\<lparr>ai_ID = [2], ai_Addrs = [[4, 2]]\<rparr>]
   \<and> handleFindPeer (egNode\<lparr>self := [2], betterPeersToQuery := (\<lambda>m p n. [[7], [3]])\<rparr>)
        Map.empty [7] (request FIND_NODE [2])
     = handleFindPeer (egNode\<lparr>self := [2]\<rparr>) Map.empty [7] (request FIND_NODE [2])"
  using handleFindPeer_self_lookup
          [where pmes = "request FIND_NODE [2]" and dht = "egNode\<lparr>self := [2]\<rparr>"
             and p = "[7]" and s = Map.empty and rt = "\<lambda>m p n. [[7], [3]]"]
  by (simp add: eg_defs)

text \<open>
  The claim as first stated promises a closer-peer list of exactly one entry. The address
  book of the node \<open>egNode\<close> (peer 1) holds no address for peer 1, and the response to a
  lookup of peer 1 carries no closer peer.
\<close>

theorem handleFindPeer_self_lookup_counterexample:
  "msg_key (request FIND_NODE [1]) = self egNode
   \<and> map_option closerPeers
        (resp (handleFindPeer egNode Map.empty [2] (request FIND_NODE [1]))) = Some []"
  by (simp add: handleFindPeer_def findPeerClosest_def PeerInfos_def PeerInfosToPBPeers_def
        NewMessage_def eg_defs)

subsection \<open>FIND_NODE: the connected target\<close>

text \<open>
  Claim C6. For every FIND_NODE request the connectivity special case never brings the
  requesting peer into the answer. When the target is not the node itself, the answer set
  is the routing table's answer, alone or followed by the target; the target is appended
  exactly when it differs from the requester and the connectivity oracle reports it as
  connected or connectable; when the target is the requester nothing is appended, whatever
  the oracle reports, and in every case the requester occurs in the answer set as often
  as in the routing table's answer. When the target is the node itself there is no
  special case: the answer set is the node alone. The response's closer-peer list is the
  encoding of the answer set's peer records that have an address.
\<close>

theorem handleFindPeer_requester_not_appended:
  "(msg_key pmes \<noteq> self dht
    \<longrightarrow> (fst (findPeerClosest dht p pmes) = betterPeersToQuery dht pmes p (CloserPeerCount dht)
         \<or> fst (findPeerClosest dht p pmes)
             = betterPeersToQuery dht pmes p (CloserPeerCount dht) @ [msg_key pmes])
       \<and> (fst (findPeerClosest dht p pmes)
             = betterPeersToQuery dht pmes p (CloserPeerCount dht) @ [msg_key pmes]
           \<longleftrightarrow> msg_key pmes \<noteq> p
               \<and> network_Connectedness dht (msg_key pmes) \<in> {Connected, CanConnect})
       \<and> (msg_key pmes = p
           \<longrightarrow> fst (findPeerClosest dht p pmes)
               = betterPeersToQuery dht pmes p (CloserPeerCount dht))
       \<and> count_list (fst (findPeerClosest dht p pmes)) p
           = count_list (betterPeersToQuery dht pmes p (CloserPeerCount dht)) p)
   \<and> (msg_key pmes = self dht \<longrightarrow> fst (findPeerClosest dht p pmes) = [self dht])
   \<and> map_option closerPeers (resp (handleFindPeer dht s p pmes))
       = Some (PeerInfosToPBPeers dht
                 (filter (\<lambda>pinfo. ai_Addrs pinfo \<noteq> [])
                    (PeerInfos dht (fst (findPeerClosest dht p pmes)))))"
proof (intro conjI impI)
  assume "msg_key pmes \<noteq> self dht"
  then have c: "fst (findPeerClosest dht p pmes)
      = betterPeersToQuery dht pmes p (CloserPeerCount dht)
        @ (if msg_key pmes \<noteq> p
              \<and> network_Connectedness dht (msg_key pmes) \<in> {Connected, CanConnect}
           then [msg_key pmes] else [])"
    by (cases "network_Connectedness dht (msg_key pmes)")
       (simp_all add: findPeerClosest_def Let_def)
  show "fst (findPeerClosest dht p pmes) = betterPeersToQuery dht pmes p (CloserPeerCount dht)
         \<or> fst (findPeerClosest dht p pmes)
             = betterPeersToQuery dht pmes p (CloserPeerCount dht) @ [msg_key pmes]"
    by (simp add: c)
  show "fst (findPeerClosest dht p pmes)
             = betterPeersToQuery dht pmes p (CloserPeerCount dht) @ [msg_key pmes]
           \<longleftrightarrow> msg_key pmes \<noteq> p
               \<and> network_Connectedness dht (msg_key pmes) \<in> {Connected, CanConnect}"
    by (simp add: c)
  show "count_list (fst (findPeerClosest dht p pmes)) p
           = count_list (betterPeersToQuery dht pmes p (CloserPeerCount dht)) p"
    by (simp add: c)
  assume "msg_key pmes = p"
  then show "fst (findPeerClosest dht p pmes)
               = betterPeersToQuery dht pmes p (CloserPeerCount dht)"
    by (simp add: c)
next
  assume "msg_key pmes = self dht"
  then show "fst (findPeerClosest dht p pmes) = [self dht]"
    by (simp add: findPeerClosest_def)
next
  show "map_option closerPeers (resp (handleFindPeer dht s p pmes))
       = Some (PeerInfosToPBPeers dht
                 (filter (\<lambda>pinfo. ai_Addrs pinfo \<noteq> [])
                    (PeerInfos dht (fst (findPeerClosest dht p pmes)))))"
    by (cases "findPeerClosest dht p pmes")
       (simp add: handleFindPeer_def Let_def NewMessage_def PeerInfos_def
          PeerInfosToPBPeers_def)
qed

text \<open>
  Peer 7 is connected. Asked by peer 2 about peer 7, the node appends peer 7 to the
  routing table's answer; asked by peer 7 about peer 7, it does not.
\<close>

theorem handleFindPeer_requester_not_appended_witness:
  "msg_key (request FIND_NODE [7]) \<noteq> self egNode
   \<and> network_Connectedness egNode [7] = Connected
   \<and> betterPeersToQuery egNode (request FIND_NODE [7]) [2] (CloserPeerCount egNode) = [[3]]
   \<and> fst (findPeerClosest egNode [2] (request FIND_NODE [7])) = [[3], [7]]
   \<and> betterPeersToQuery egNode (request FIND_NODE [7]) [7] (CloserPeerCount egNode) = [[2], [3]]
   \<and> fst (findPeerClosest egNode [7] (request FIND_NODE [7])) = [[2], [3]]
   \<and> map_option closerPeers (resp (handleFindPeer egNode Map.empty [7] (request FIND_NODE [7])))
     = Some [\<lparr>ai_ID = [2], ai_Addrs = [[4, 2]]\<rparr>]"
  using
    handleFindPeer_requester_not_appended
      [where pmes = "request FIND_NODE [7]" and dht = egNode and p = "[2]" and s = Map.empty]
    handleFindPeer_requester_not_appended
      [where pmes = "request FIND_NODE [7]" and dht = egNode and p = "[7]" and s = Map.empty]
  by (auto simp add: eg_defs PeerInfos_def PeerInfosToPBPeers_def)

subsection \<open>GET_PROVIDERS: the node as a provider\<close>

text \<open>
  Claim C7. For every GET_PROVIDERS request with a parseable content identifier: if the
  possession check (\<^verbatim>\<open>Has\<close> on the datastore) reports the content as present, this
  node's identifier is appended to the provider set returned by the provider index, and
  the response's provider-peer list is the encoding of the records of these peers, the
  node's own record last; if the possession check returns an error other than not-found,
  the content counts as not possessed, whatever boolean came with the error: no failure
  is returned, the provider-peer list is that of the provider index alone, and the whole
  outcome is the one of a datastore answering that the content is absent.
\<close>

theorem handleGetProviders_includes_self:
  assumes "cid_Cast dht (msg_key pmes) = Inr c"
  shows "(datastore_Has dht s (convertToDsKey dht (cid_Bytes c)) = (True, None)
          \<longrightarrow> err (handleGetProviders dht s p pmes) = None
              \<and> map_option providerPeers (resp (handleGetProviders dht s p pmes))
                  = Some (PeerInfosToPBPeers dht (PeerInfos dht (providers_GetProviders dht c))
                          @ [peerInfoToPBPeer dht
                               \<lparr>ai_ID = self dht, ai_Addrs = peerstore_Addrs dht (self dht)\<rparr>]))
       \<and> (snd (datastore_Has dht s (convertToDsKey dht (cid_Bytes c))) \<notin> {None, Some ErrNotFound}
          \<longrightarrow> err (handleGetProviders dht s p pmes) = None
              \<and> map_option providerPeers (resp (handleGetProviders dht s p pmes))
                  = Some (PeerInfosToPBPeers dht (PeerInfos dht (providers_GetProviders dht c)))
              \<and> handleGetProviders dht s p pmes
                  = handleGetProviders (dht\<lparr>datastore_Has := (\<lambda>s k. (False, None))\<rparr>) s p pmes)"
  using assms
  by (auto simp: handleGetProviders_def Let_def PeerInfos_def PeerInfosToPBPeers_def
        NewMessage_def convertToDsKey_def CloserPeerCount_def
      split: prod.splits)

text \<open>
  The provider index knows peer 2 for content 5. With the content in the store the node
  (peer 1) adds itself; with a datastore whose \<^verbatim>\<open>Has\<close> fails it does not, and answers
  all the same.
\<close>

theorem handleGetProviders_includes_self_witness:
  "cid_Cast egNode (msg_key (request GET_PROVIDERS [5])) = Inr (Cid [5])
   \<and> datastore_Has egNode [[CHR ''/'', CHR 0x05] \<mapsto> [9]] (convertToDsKey egNode [5]) = (True, None)
   \<and> providers_GetProviders egNode (Cid [5]) = [[2]]
   \<and> err (handleGetProviders egNode [[CHR ''/'', CHR 0x05] \<mapsto> [9]] [7]
            (request GET_PROVIDERS [5])) = None
   \<and> map_option providerPeers
        (resp (handleGetProviders egNode [[CHR ''/'', CHR 0x05] \<mapsto> [9]] [7]
                 (request GET_PROVIDERS [5])))
     = Some [\<lparr>ai_ID = [2], ai_Addrs = [[4, 2]]\<rparr>, \<lparr>ai_ID = [1], ai_Addrs = []\<rparr>]
   \<and> datastore_Has (egNode\<lparr>datastore_Has := (\<lambda>s k. (True, Some (CollaboratorError ''io'')))\<rparr>)
        Map.empty (convertToDsKey egNode [5]) = (True, Some (CollaboratorError ''io''))
   \<and> err (handleGetProviders
             (egNode\<lparr>datastore_Has := (\<lambda>s k. (True, Some (CollaboratorError ''io'')))\<rparr>)
             Map.empty [7] (request GET_PROVIDERS [5])) = None
   \<and> map_option providerPeers
        (resp (handleGetProviders
                 (egNode\<lparr>datastore_Has := (\<lambda>s k. (True, Some (CollaboratorError ''io'')))\<rparr>)
                 Map.empty [7] (request GET_PROVIDERS [5])))
     = Some [\<lparr>ai_ID = [2], ai_Addrs = [[4, 2]]\<rparr>]"
  using
    handleGetProviders_includes_self
      [where pmes = "request GET_PROVIDERS [5]" and dht = egNode and c = "Cid [5]"
         and s = "[[CHR ''/'', CHR 0x05] \<mapsto> [9]]" and p = "[7]"]
    handleGetProviders_includes_self
      [where pmes = "request GET_PROVIDERS [5]"
         and dht = "egNode\<lparr>datastore_Has := (\<lambda>s k. (True, Some (CollaboratorError ''io'')))\<rparr>"
         and c = "Cid [5]" and s = Map.empty and p = "[7]"]
  by (auto simp add: eg_defs PeerInfos_def PeerInfosToPBPeers_def)

subsection \<open>ADD_PROVIDER: only self-announcements\<close>

lemma addProviderLoop_concat:
  "addProviderLoop dht p c pinfos
   = concat (map (\<lambda>pinfo. if ai_ID pinfo = p \<and> ai_Addrs pinfo \<noteq> []
                           then (if ai_ID pinfo \<noteq> self dht
                                 then [AddAddrs (ai_ID pinfo) (ai_Addrs pinfo)] else [])
                                @ [AddProvider c p]
                           else []) pinfos)"
  by (induction pinfos) auto

lemma addProviderLoop_filter:
  "addProviderLoop dht p c (filter (\<lambda>pinfo. ai_ID pinfo = p \<and> ai_Addrs pinfo \<noteq> []) pinfos)
   = addProviderLoop dht p c pinfos"
  by (induction pinfos) auto

lemma addProviderLoop_updates:
  "filter (\<lambda>e. case e of AddProvider c' q \<Rightarrow> True | _ \<Rightarrow> False) (addProviderLoop dht p c pinfos)
   = replicate (length (filter (\<lambda>pinfo. ai_ID pinfo = p \<and> ai_Addrs pinfo \<noteq> []) pinfos))
       (AddProvider c p)"
  by (induction pinfos) auto

text \<open>
  Claim C8. For every ADD_PROVIDER request with a parseable content identifier, each
  provider-peer record of the request whose identifier differs from the requesting peer,
  or which carries no address, is skipped without any side effect: the calls made are
  those of the records passing both checks, each contributing (after the address book
  update, made unless the record is the node's own) one provider-index update that
  associates the content identifier with the requesting peer; there are exactly as many
  provider-index updates as records passing both checks, all of them for that content
  identifier and that peer; and dropping the other records from the request changes
  nothing in the outcome. The datastore is untouched and the handler returns neither a
  response nor an error.
\<close>

theorem handleAddProvider_only_own_records:
  assumes "cid_Cast dht (msg_key pmes) = Inr c"
  shows "trace (handleAddProvider dht s p pmes)
           = concat (map (\<lambda>pinfo. if ai_ID pinfo = p \<and> ai_Addrs pinfo \<noteq> []
                                   then (if ai_ID pinfo \<noteq> self dht
                                         then [AddAddrs (ai_ID pinfo) (ai_Addrs pinfo)] else [])
                                        @ [AddProvider c p]
                                   else [])
                       (PBPeersToPeerInfos dht (providerPeers pmes)))
       \<and> filter (\<lambda>e. case e of AddProvider c' q \<Rightarrow> True | _ \<Rightarrow> False)
            (trace (handleAddProvider dht s p pmes))
           = replicate
               (length (filter (\<lambda>pinfo. ai_ID pinfo = p \<and> ai_Addrs pinfo \<noteq> [])
                          (PBPeersToPeerInfos dht (providerPeers pmes))))
               (AddProvider c p)
       \<and> handleAddProvider dht s p
            (pmes\<lparr>providerPeers :=
                    filter (\<lambda>w. ai_ID (PBPeerToPeerInfo dht w) = p
                                 \<and> ai_Addrs (PBPeerToPeerInfo dht w) \<noteq> [])
                      (providerPeers pmes)\<rparr>)
           = handleAddProvider dht s p pmes
       \<and> store (handleAddProvider dht s p pmes) = s
       \<and> resp (handleAddProvider dht s p pmes) = None
       \<and> err (handleAddProvider dht s p pmes) = None"
proof -
  let ?pinfos = "PBPeersToPeerInfos dht (providerPeers pmes)"
  have tr: "trace (handleAddProvider dht s p pmes) = addProviderLoop dht p c ?pinfos"
    using assms by (simp add: handleAddProvider_def Let_def)
  have calls: "trace (handleAddProvider dht s p pmes)
           = concat (map (\<lambda>pinfo. if ai_ID pinfo = p \<and> ai_Addrs pinfo \<noteq> []
                                   then (if ai_ID pinfo \<noteq> self dht
                                         then [AddAddrs (ai_ID pinfo) (ai_Addrs pinfo)] else [])
                                        @ [AddProvider c p]
                                   else []) ?pinfos)"
    unfolding tr by (rule addProviderLoop_concat)
  have updates: "filter (\<lambda>e. case e of AddProvider c' q \<Rightarrow> True | _ \<Rightarrow> False)
            (trace (handleAddProvider dht s p pmes))
           = replicate
               (length (filter (\<lambda>pinfo. ai_ID pinfo = p \<and> ai_Addrs pinfo \<noteq> []) ?pinfos))
               (AddProvider c p)"
    unfolding tr by (rule addProviderLoop_updates)
  have f: "map (PBPeerToPeerInfo dht)
             (filter (\<lambda>w. ai_ID (PBPeerToPeerInfo dht w) = p
                          \<and> ai_Addrs (PBPeerToPeerInfo dht w) \<noteq> []) (providerPeers pmes))
           = filter (\<lambda>pinfo. ai_ID pinfo = p \<and> ai_Addrs pinfo \<noteq> [])
               (map (PBPeerToPeerInfo dht) (providerPeers pmes))"
    by (simp add: filter_map comp_def)
  have skipped: "handleAddProvider dht s p
            (pmes\<lparr>providerPeers :=
                    filter (\<lambda>w. ai_ID (PBPeerToPeerInfo dht w) = p
                                 \<and> ai_Addrs (PBPeerToPeerInfo dht w) \<noteq> [])
                      (providerPeers pmes)\<rparr>)
           = handleAddProvider dht s p pmes"
    using assms
    by (simp add: handleAddProvider_def Let_def PBPeersToPeerInfos_def f addProviderLoop_filter)
  have rest: "store (handleAddProvider dht s p pmes) = s
       \<and> resp (handleAddProvider dht s p pmes) = None
       \<and> err (handleAddProvider dht s p pmes) = None"
    using assms by (simp add: handleAddProvider_def Let_def)
  from calls updates skipped rest show ?thesis by blast
qed

text \<open>
  Peer 7 announces three records for content 5: one for peer 3, one for itself without
  addresses, one for itself with an address. Only the last one is acted upon.
\<close>

theorem handleAddProvider_only_own_records_witness:
  "cid_Cast egNode (msg_key ((request ADD_PROVIDER [5])
       \<lparr>providerPeers := [\<lparr>ai_ID = [3], ai_Addrs = [[4, 3]]\<rparr>, \<lparr>ai_ID = [7], ai_Addrs = []\<rparr>,
                          \<lparr>ai_ID = [7], ai_Addrs = [[4, 7]]\<rparr>]\<rparr>)) = Inr (Cid [5])
   \<and> trace (handleAddProvider egNode Map.empty [7] ((request ADD_PROVIDER [5])
       \<lparr>providerPeers := [\<lparr>ai_ID = [3], ai_Addrs = [[4, 3]]\<rparr>, \<lparr>ai_ID = [7], ai_Addrs = []\<rparr>,
                          \<lparr>ai_ID = [7], ai_Addrs = [[4, 7]]\<rparr>]\<rparr>))
     = [AddAddrs [7] [[4, 7]], AddProvider (Cid [5]) [7]]
   \<and> resp (handleAddProvider egNode Map.empty [7] ((request ADD_PROVIDER [5])
       \<lparr>providerPeers := [\<lparr>ai_ID = [3], ai_Addrs = [[4, 3]]\<rparr>, \<lparr>ai_ID = [7], ai_Addrs = []\<rparr>,
                          \<lparr>ai_ID = [7], ai_Addrs = [[4, 7]]\<rparr>]\<rparr>)) = None
   \<and> err (handleAddProvider egNode Map.empty [7] ((request ADD_PROVIDER [5])
       \<lparr>providerPeers := [\<lparr>ai_ID = [3], ai_Addrs = [[4, 3]]\<rparr>, \<lparr>ai_ID = [7], ai_Addrs = []\<rparr>,
                          \<lparr>ai_ID = [7], ai_Addrs = [[4, 7]]\<rparr>]\<rparr>)) = None"
  using handleAddProvider_only_own_records
      [where pmes = "(request ADD_PROVIDER [5])
           \<lparr>providerPeers := [\<lparr>ai_ID = [3], ai_Addrs = [[4, 3]]\<rparr>, \<lparr>ai_ID = [7], ai_Addrs = []\<rparr>,
                              \<lparr>ai_ID = [7], ai_Addrs = [[4, 7]]\<rparr>]\<rparr>"
         and dht = egNode and c = "Cid [5]" and s = Map.empty and p = "[7]"]
  by (simp add: eg_defs PBPeersToPeerInfos_def)

end
